theory Spec2Isabelle
  imports Main "HOL-Library.Sublist"
begin

section \<open>Repository index retrieval, caching and verification (pkg/apk/index.go)\<close>

text \<open>
  A shallow embedding of \<^verbatim>\<open>pkg/apk/index.go\<close>. Go strings and byte slices are lists of
  8-bit characters. Every library the file calls (the file system, the HTTP client, the
  gzip and tar readers, the URL parsers, the signature package, the index decoder) is a
  field of the record \<open>env\<close>: the functions below are the source's own control flow over
  those collaborators. The cache is the struct \<open>indexCache\<close>; the calls that touch the
  outside world are written to a trace, so that a theorem can say which ones happened.
\<close>

subsection \<open>Data\<close>

type_synonym bytes = string

text \<open>An error value produced by a library; only its identity matters.\<close>
type_synonym exterr = string

text \<open>\<^verbatim>\<open>time.Time\<close> as an instant on a line; \<^verbatim>\<open>After\<close> is the strict order.\<close>
type_synonym time = int

definition After :: "time \<Rightarrow> time \<Rightarrow> bool" where
  "After t u \<longleftrightarrow> u < t"

text \<open>Errors of the \<^verbatim>\<open>os\<close> package, as far as \<^verbatim>\<open>errors.Is(err, fs.ErrNotExist)\<close> tells them apart.\<close>
datatype oserr = ErrNotExist | ErrPermission | ErrOtherOS exterr

text \<open>
  The errors the file builds with \<^verbatim>\<open>fmt.Errorf\<close>, one constructor per format string, with
  the values the format interpolates:
  \<^item> \<open>InvalidRepositoryLine\<close>: "invalid repository line: %q"
  \<^item> \<open>FailedParseURI\<close>: "failed to parse repo as URI: %w"
  \<^item> \<open>FailedReadRepository\<close>: "failed to read repository %s: %w"
  \<^item> \<open>RequestError\<close>: the error of \<^verbatim>\<open>http.NewRequestWithContext\<close>, returned as it is
  \<^item> \<open>UnableToGetIndex\<close>: "unable to get repository index at %s: %w"
  \<^item> \<open>IndexNotFound\<close>: "repository index not found for architecture %s at %s"
  \<^item> \<open>UnexpectedStatus\<close>: "unexpected status code %d when getting repository index for architecture %s at %s"
  \<^item> \<open>UnableToReadIndex\<close>: "unable to read repository index at %s: %w"
  \<^item> \<open>SchemeNotSupported\<close>: "repository scheme %s not supported"
  \<^item> \<open>GzipReaderError\<close>: "unable to create gzip reader for repository index: %w"
  \<^item> \<open>FailedReadSignature\<close>: "failed to read signature from repository index: %w"
  \<^item> \<open>KeyNameNotFound\<close>: "failed to find key name in signature file name: %s"
  \<^item> \<open>UnexpectedTgzError\<close>: "unexpected error reading from tgz: %w"
  \<^item> \<open>HashError\<close>: the error of \<^verbatim>\<open>sign.HashData\<close>, returned as it is
  \<^item> \<open>NoKeysProvided\<close>: "no keys provided to verify signature"
  \<^item> \<open>NoKeyFound\<close>: "no key found to verify signature for keyfile %s; tried all other keys as well"
  \<^item> \<open>UnableToConvert\<close>: "unable to read convert repository index bytes to index struct at %s: %w"
\<close>
datatype error =
    InvalidRepositoryLine string
  | FailedParseURI exterr
  | FailedReadRepository string oserr
  | RequestError exterr
  | UnableToGetIndex string exterr
  | IndexNotFound string string
  | UnexpectedStatus int string string
  | UnableToReadIndex string exterr
  | SchemeNotSupported string
  | GzipReaderError exterr
  | FailedReadSignature exterr
  | KeyNameNotFound string
  | UnexpectedTgzError exterr
  | HashError exterr
  | NoKeysProvided
  | NoKeyFound string
  | UnableToConvert string exterr

text \<open>A call either returns or panics (with the panic's message).\<close>
datatype 'a outcome = Return 'a | Panic string

text \<open>\<^verbatim>\<open>url.URL\<close>: the fields the file reads. \<open>url_User\<close> is the user name and the password
  (\<^verbatim>\<open>""\<close> when none is set), \<open>None\<close> for a nil \<^verbatim>\<open>Userinfo\<close>.\<close>
record URL =
  url_Scheme :: string
  url_User :: "(string \<times> string) option"
  url_String :: string

text \<open>\<^verbatim>\<open>http.Request\<close> as the file builds it: a GET of \<open>req_url\<close>, with Basic-Auth credentials
  when they were set.\<close>
record request =
  req_url :: string
  req_auth :: "(string \<times> string) option"

text \<open>\<^verbatim>\<open>http.Response\<close>: the status code, and what \<^verbatim>\<open>io.Copy\<close> of the body gives.\<close>
record response =
  StatusCode :: int
  Body :: "exterr + bytes"

text \<open>\<^verbatim>\<open>*http.Client\<close> as a handle.\<close>
type_synonym client = nat

record indexOpts =
  ignoreSignatures :: bool
  httpClient :: "client option"

datatype IndexOption = WithIgnoreSignatures bool | WithHTTPClient "client option"

fun applyOption :: "IndexOption \<Rightarrow> indexOpts \<Rightarrow> indexOpts" where
  "applyOption (WithIgnoreSignatures b) o' = o'\<lparr>ignoreSignatures := b\<rparr>"
| "applyOption (WithHTTPClient c) o' = o'\<lparr>httpClient := c\<rparr>"

text \<open>
  A \<^verbatim>\<open>map[string][]byte\<close>: \<open>None\<close> is the nil map, \<open>Some kvs\<close> a map with the entries \<open>kvs\<close>,
  listed in the order a \<^verbatim>\<open>range\<close> loop visits them (Go leaves that order open, so a
  theorem about every list is a theorem about every order). A lookup is \<open>map_of\<close>.
\<close>
type_synonym keymap = "(string \<times> bytes) list option"

text \<open>
  The calls that reach outside the process, and \<open>Panicked u\<close>: the computation of the index of
  \<open>u\<close> panicked.
\<close>
datatype event =
    Stat string
  | Compute string
  | ReadFile string
  | HttpGet "client option" request
  | Panicked string

text \<open>\<^verbatim>\<open>indexResult\<close>: both fields are pointers, so both may be nil.\<close>
record 'idx indexResult =
  res_idx :: "'idx option"
  res_err :: "error option"

text \<open>
  \<^verbatim>\<open>indexCache\<close>. \<open>onces\<close> maps a URL to whether its \<^verbatim>\<open>sync.Once\<close> has run; the mutex has
  no content in a sequential run.
\<close>
record 'idx indexCache =
  onces :: "string \<rightharpoonup> bool"
  modtimes :: "string \<rightharpoonup> time"
  indexes :: "string \<rightharpoonup> 'idx indexResult"

text \<open>The process: \<^verbatim>\<open>globalIndexCache\<close> and the trace of outside calls made so far.\<close>
record 'idx state =
  cache :: "'idx indexCache"
  trace :: "event list"

definition globalIndexCache :: "'idx indexCache" where
  "globalIndexCache = \<lparr>onces = Map.empty, modtimes = Map.empty, indexes = Map.empty\<rparr>"

definition initial :: "'idx state" where
  "initial = \<lparr>cache = globalIndexCache, trace = []\<rparr>"

text \<open>
  Modelled from the spec: \<^verbatim>\<open>NamedIndex\<close>, \<^verbatim>\<open>Repository\<close> and the constructors
  \<^verbatim>\<open>NewNamedRepositoryWithIndex\<close> and \<^verbatim>\<open>WithIndex\<close> are declared outside this file; the spec
  gives the shape \<^verbatim>\<open>{pinName, repository: {uri, index}}\<close>.
\<close>
record 'idx NamedIndex =
  ni_name :: string
  ni_uri :: string
  ni_index :: 'idx

text \<open>
  The collaborators, as parameters. \<open>indexFilename\<close> is a constant of the package declared
  outside this file; \<^verbatim>\<open>sign.HashData\<close>, \<^verbatim>\<open>sign.RSAVerifySHA1Digest\<close> and \<^verbatim>\<open>IndexFromArchive\<close> are
  functions of the repository outside this file; the others are libraries.
  \<open>gzip_NewReader\<close>, \<open>tar_Next\<close>, \<open>tar_ReadAll\<close> and \<open>tar_Next2\<close> are the four reads of the
  archive, each a function of the raw bytes: creating the gzip reader, the first header
  (its name), the content of the first record, and the second call of \<^verbatim>\<open>Next\<close> (\<open>None\<close>
  when it returns a header or \<^verbatim>\<open>io.EOF\<close>). \<open>consumed\<close> is the number of bytes those reads
  asked of the \<^verbatim>\<open>bytes.Reader\<close> under the gzip reader. \<open>RSAVerifySHA1Digest\<close> returns
  \<open>None\<close> (the nil error) when the signature is valid for the key, and \<open>RoundTrip\<close> is
  the round trip of the range-retry transport on the given client (\<open>None\<close>: the default
  retrying client).
\<close>
record 'idx env =
  indexFilename :: string
  uri_New :: "string \<Rightarrow> string"
  url_Parse :: "string \<Rightarrow> exterr + URL"
  os_Stat :: "string \<Rightarrow> oserr + time"
  os_ReadFile :: "string \<Rightarrow> oserr + bytes"
  http_NewRequest :: "string \<Rightarrow> exterr option"
  RoundTrip :: "client option \<Rightarrow> request \<Rightarrow> exterr + response"
  gzip_NewReader :: "bytes \<Rightarrow> exterr option"
  tar_Next :: "bytes \<Rightarrow> exterr + string"
  tar_ReadAll :: "bytes \<Rightarrow> exterr + bytes"
  tar_Next2 :: "bytes \<Rightarrow> exterr option"
  consumed :: "bytes \<Rightarrow> nat"
  HashData :: "bytes \<Rightarrow> exterr + bytes"
  RSAVerifySHA1Digest :: "bytes \<Rightarrow> bytes \<Rightarrow> bytes \<Rightarrow> exterr option"
  IndexFromArchive :: "bytes \<Rightarrow> 'idx option \<times> exterr option"

subsection \<open>Strings\<close>

text \<open>\<^verbatim>\<open>strings.HasPrefix\<close>.\<close>
definition HasPrefix :: "string \<Rightarrow> string \<Rightarrow> bool" where
  "HasPrefix s p \<longleftrightarrow> prefix p s"

text \<open>
  \<^verbatim>\<open>unicode.IsSpace\<close> on the UTF-8 bytes of a string: \<open>spaceWidth s\<close> is the number of bytes
  of the white-space rune \<open>s\<close> starts with, and 0 when it starts with none. The runes are
  U+0009 to U+000D, U+0020, U+0085, U+00A0, U+1680, U+2000 to U+200A, U+2028, U+2029,
  U+202F, U+205F and U+3000. Each encoding starts with an ASCII byte or a UTF-8 lead
  byte, which never lies inside another rune, so matching the encodings at every position
  finds the same runes as decoding from the left.
\<close>
definition asciiSpace :: "char \<Rightarrow> bool" where
  "asciiSpace c \<longleftrightarrow>
     c = CHR 0x09 \<or> c = CHR 0x0A \<or> c = CHR 0x0B \<or> c = CHR 0x0C \<or> c = CHR 0x0D \<or> c = CHR 0x20"

definition spaceTail :: "char \<Rightarrow> bool" where
  "spaceTail d \<longleftrightarrow>
     ((0x80 :: nat) \<le> of_char d \<and> of_char d \<le> (0x8A :: nat)) \<or>
     d = CHR 0xA8 \<or> d = CHR 0xA9 \<or> d = CHR 0xAF"

fun spaceWidth :: "string \<Rightarrow> nat" where
  "spaceWidth [] = 0"
| "spaceWidth (c # cs) =
     (if asciiSpace c then 1
      else if c = CHR 0xC2 \<and> (take 1 cs = [CHR 0x85] \<or> take 1 cs = [CHR 0xA0]) then 2
      else if c = CHR 0xE1 \<and> take 2 cs = [CHR 0x9A, CHR 0x80] then 3
      else if c = CHR 0xE2 \<and> take 1 cs = [CHR 0x80] \<and>
              (case drop 1 cs of [] \<Rightarrow> False | d # _ \<Rightarrow> spaceTail d) then 3
      else if c = CHR 0xE2 \<and> take 2 cs = [CHR 0x81, CHR 0x9F] then 3
      else if c = CHR 0xE3 \<and> take 2 cs = [CHR 0x80, CHR 0x80] then 3
      else 0)"

text \<open>
  \<^verbatim>\<open>strings.Fields\<close>: the maximal runs of bytes between white-space runes, in order, none
  of them empty. \<open>fieldsFrom cur s\<close> has read the bytes \<open>cur\<close> of the field it is in.
\<close>
function fieldsFrom :: "string \<Rightarrow> string \<Rightarrow> string list" where
  "fieldsFrom cur [] = (if cur = [] then [] else [cur])"
| "fieldsFrom cur (c # cs) =
     (if 0 < spaceWidth (c # cs)
      then (if cur = [] then [] else [cur]) @ fieldsFrom [] (drop (spaceWidth (c # cs) - 1) cs)
      else fieldsFrom (cur @ [c]) cs)"
  by pat_completeness auto
termination
  by (relation "measure (\<lambda>(cur, s). length s)") auto

definition Fields :: "string \<Rightarrow> string list" where
  "Fields s = fieldsFrom [] s"

text \<open>
  \<^verbatim>\<open>signatureFileRegex.FindStringSubmatch\<close> for the pattern
  \<^verbatim>\<open>^\.SIGN\.RSA\.(.*\.rsa\.pub)$\<close>: the whole match and the group, or nothing. The dot of
  \<^verbatim>\<open>.*\<close> matches every character but the newline.
\<close>
definition signatureFileRegex :: "string \<Rightarrow> string list" where
  "signatureFileRegex name =
     (if prefix ''.SIGN.RSA.'' name \<and> suffix ''.rsa.pub'' (drop 10 name) \<and>
         CHR 0x0A \<notin> set (drop 10 name)
      then [name, drop 10 name] else [])"

subsection \<open>The reader under the gzip reader\<close>

text \<open>
  \<^verbatim>\<open>bytes.Reader\<close>: the slice and the read offset. \<open>readN r n\<close> is the reader after reads
  that ask for \<open>n\<close> bytes in all: a read never goes past the end of the slice.
\<close>
record Reader =
  rd_s :: bytes
  rd_i :: nat

definition NewReader :: "bytes \<Rightarrow> Reader" where
  "NewReader b = \<lparr>rd_s = b, rd_i = 0\<rparr>"

definition Len :: "Reader \<Rightarrow> nat" where
  "Len r = (if length (rd_s r) \<le> rd_i r then 0 else length (rd_s r) - rd_i r)"

definition readN :: "Reader \<Rightarrow> nat \<Rightarrow> Reader" where
  "readN r n = r\<lparr>rd_i := min (rd_i r + n) (length (rd_s r))\<rparr>"

text \<open>What is left to read: \<^verbatim>\<open>io.ReadAll\<close> of the reader would return it.\<close>
definition unread :: "Reader \<Rightarrow> bytes" where
  "unread r = drop (rd_i r) (rd_s r)"

subsection \<open>getRepositoryIndex\<close>

text \<open>
  Lines 269 to 272: \<^verbatim>\<open>allBytes := len(b)\<close>, \<^verbatim>\<open>unreadBytes := buf.Len()\<close>,
  \<^verbatim>\<open>readBytes := allBytes - unreadBytes\<close>, \<^verbatim>\<open>indexData := b[readBytes:]\<close>, in Go's \<^verbatim>\<open>int\<close>.
\<close>
definition readBytes :: "bytes \<Rightarrow> Reader \<Rightarrow> int" where
  "readBytes b buf = int (length b) - int (Len buf)"

definition indexData :: "bytes \<Rightarrow> Reader \<Rightarrow> bytes" where
  "indexData b buf = drop (nat (readBytes b buf)) b"

text \<open>
  Lines 290 to 295: the \<^verbatim>\<open>range\<close> loop over the keys, which stops at the first key the
  signature is valid for.
\<close>
fun rangeKeys :: "'idx env \<Rightarrow> bytes \<Rightarrow> bytes \<Rightarrow> (string \<times> bytes) list \<Rightarrow> bool" where
  "rangeKeys env indexDigest signature [] = False"
| "rangeKeys env indexDigest signature ((k, keyData) # rest) =
     (if RSAVerifySHA1Digest env indexDigest signature keyData = None then True
      else rangeKeys env indexDigest signature rest)"

text \<open>
  Lines 279 to 299, from the nil check on. \<open>verified\<close> starts as \<^verbatim>\<open>false\<close>, and the first
  attempt, with the key the file name gives, only ever assigns \<^verbatim>\<open>false\<close> to it.
\<close>
definition checkKeys :: "'idx env \<Rightarrow> keymap \<Rightarrow> string \<Rightarrow> bytes \<Rightarrow> bytes \<Rightarrow> error option" where
  "checkKeys env keys keyName indexDigest signature =
     (case keys of
        None \<Rightarrow> Some NoKeysProvided
      | Some kvs \<Rightarrow>
          (let verified0 = False;
               verified1 =
                 (case map_of kvs keyName of
                    Some keyData \<Rightarrow>
                      (if RSAVerifySHA1Digest env indexDigest signature keyData \<noteq> None
                       then False else verified0)
                  | None \<Rightarrow> verified0);
               verified2 =
                 (if \<not> verified1 then rangeKeys env indexDigest signature kvs else verified1)
           in if \<not> verified2 then Some (NoKeyFound keyName) else None))"

text \<open>
  Lines 236 to 300, the body of \<^verbatim>\<open>if !opts.ignoreSignatures\<close>: \<open>None\<close> when the signature
  is accepted, the error returned otherwise.
\<close>
definition validateSignature :: "'idx env \<Rightarrow> bytes \<Rightarrow> keymap \<Rightarrow> error option" where
  "validateSignature env b keys =
     (let buf = NewReader b in
      case gzip_NewReader env b of
        Some e \<Rightarrow> Some (GzipReaderError e)
      | None \<Rightarrow>
     (case tar_Next env b of
        Inl e \<Rightarrow> Some (FailedReadSignature e)
      | Inr signatureFile \<Rightarrow>
     (let matches = signatureFileRegex signatureFile in
      if length matches \<noteq> 2 then Some (KeyNameNotFound signatureFile)
      else
     (case tar_ReadAll env b of
        Inl e \<Rightarrow> Some (FailedReadSignature e)
      | Inr signature \<Rightarrow>
     (case tar_Next2 env b of
        Some e \<Rightarrow> Some (UnexpectedTgzError e)
      | None \<Rightarrow>
     (case HashData env (indexData b (readN buf (consumed env b))) of
        Inl e \<Rightarrow> Some (HashError e)
      | Inr indexDigest \<Rightarrow> checkKeys env keys (matches ! 1) indexDigest signature))))))"

text \<open>
  Lines 168 to 233: the bytes of the index, or the pair the function returns early.
  With the events of the reads it made.
\<close>
definition fetchBytes ::
  "'idx env \<Rightarrow> string \<Rightarrow> string \<Rightarrow> indexOpts \<Rightarrow>
   event list \<times> (('idx option \<times> error option) + bytes)" where
  "fetchBytes env u arch opts =
     (case (if HasPrefix u ''https://'' then url_Parse env u
            else url_Parse env (uri_New env u)) of
        Inl e \<Rightarrow> ([], Inl (None, Some (FailedParseURI e)))
      | Inr asURL \<Rightarrow>
          if url_Scheme asURL = ''file'' then
            (case os_ReadFile env u of
               Inl e \<Rightarrow>
                 ([ReadFile u],
                  if e \<noteq> ErrNotExist then Inl (None, Some (FailedReadRepository u e))
                  else Inl (None, None))
             | Inr b \<Rightarrow> ([ReadFile u], Inr b))
          else if url_Scheme asURL = ''https'' then
            (case http_NewRequest env (url_String asURL) of
               Some e \<Rightarrow> ([], Inl (None, Some (RequestError e)))
             | None \<Rightarrow>
                 (let req = \<lparr>req_url = url_String asURL, req_auth = url_User asURL\<rparr>;
                      evs = [HttpGet (httpClient opts) req]
                  in case RoundTrip env (httpClient opts) req of
                       Inl e \<Rightarrow> (evs, Inl (None, Some (UnableToGetIndex u e)))
                     | Inr res \<Rightarrow>
                         if StatusCode res = 200 then
                           (case Body res of
                              Inl e \<Rightarrow> (evs, Inl (None, Some (UnableToReadIndex u e)))
                            | Inr b \<Rightarrow> (evs, Inr b))
                         else if StatusCode res = 404 then
                           (evs, Inl (None, Some (IndexNotFound arch u)))
                         else
                           (evs, Inl (None, Some (UnexpectedStatus (StatusCode res) arch u)))))
          else ([], Inl (None, Some (SchemeNotSupported (url_Scheme asURL)))))"

definition getRepositoryIndex ::
  "'idx env \<Rightarrow> string \<Rightarrow> keymap \<Rightarrow> string \<Rightarrow> indexOpts \<Rightarrow>
   event list \<times> ('idx option \<times> error option)" where
  "getRepositoryIndex env u keys arch opts =
     (case fetchBytes env u arch opts of
        (evs, Inl r) \<Rightarrow> (evs, r)
      | (evs, Inr b) \<Rightarrow>
          (case (if \<not> ignoreSignatures opts then validateSignature env b keys else None) of
             Some e \<Rightarrow> (evs, (None, Some e))
           | None \<Rightarrow>
               (case IndexFromArchive env b of
                  (index, Some e) \<Rightarrow> (evs, (None, Some (UnableToConvert u e)))
                | (index, None) \<Rightarrow> (evs, (index, None)))))"

subsection \<open>indexCache.get\<close>

text \<open>Lines 73 to 77 and 93 to 97: the computation and the store of its result.\<close>
definition computeAndStore ::
  "'idx env \<Rightarrow> string \<Rightarrow> keymap \<Rightarrow> string \<Rightarrow> indexOpts \<Rightarrow> 'idx state \<Rightarrow> 'idx state" where
  "computeAndStore env u keys arch opts st =
     (case getRepositoryIndex env u keys arch opts of
        (evs, (idx, err)) \<Rightarrow>
          st\<lparr>cache := (cache st)\<lparr>indexes := (indexes (cache st))
                          (u \<mapsto> \<lparr>res_idx = idx, res_err = err\<rparr>)\<rparr>,
             trace := trace st @ Compute u # evs\<rparr>)"

text \<open>Lines 102 to 108: the final load, which panics when the entry is missing.\<close>
definition loadResult ::
  "string \<Rightarrow> 'idx state \<Rightarrow> ('idx option \<times> error option) outcome" where
  "loadResult u st =
     (case indexes (cache st) u of
        None \<Rightarrow> Panic (''did not see index '' @ u @ '' after writing it'')
      | Some result \<Rightarrow> Return (res_idx result, res_err result))"

text \<open>
  A sequential call of \<^verbatim>\<open>get\<close>. On the remote branch \<^verbatim>\<open>LoadOrStore\<close> finds the URL's
  \<^verbatim>\<open>Once\<close> or stores a new one, and \<^verbatim>\<open>Do\<close> runs the function when the \<^verbatim>\<open>Once\<close> has not run,
  and marks it as run.
\<close>
definition get ::
  "'idx env \<Rightarrow> string \<Rightarrow> keymap \<Rightarrow> string \<Rightarrow> indexOpts \<Rightarrow> 'idx state \<Rightarrow>
   ('idx option \<times> error option) outcome \<times> 'idx state" where
  "get env u keys arch opts st =
     (if HasPrefix u ''https://'' then
        (let ran = (case onces (cache st) u of Some d \<Rightarrow> d | None \<Rightarrow> False);
             st1 = (if ran then st else computeAndStore env u keys arch opts st);
             st2 = st1\<lparr>cache := (cache st1)\<lparr>onces := (onces (cache st1))(u \<mapsto> True)\<rparr>\<rparr>
         in (loadResult u st2, st2))
      else
        (let st0 = st\<lparr>trace := trace st @ [Stat u]\<rparr> in
         case os_Stat env u of
           Inl e \<Rightarrow> (Return (None, None), st0)
         | Inr mod' \<Rightarrow>
             (let st1 =
                (if (case modtimes (cache st0) u of None \<Rightarrow> True | Some before \<Rightarrow> After mod' before)
                 then (let st' = computeAndStore env u keys arch opts st0
                       in st'\<lparr>cache := (cache st')\<lparr>modtimes := (modtimes (cache st'))(u \<mapsto> mod')\<rparr>\<rparr>)
                 else st0)
              in (loadResult u st1, st1))))"

text \<open>
  A call of \<^verbatim>\<open>get\<close> in which \<^verbatim>\<open>getRepositoryIndex\<close> does not return but panics with the value
  \<open>v\<close>, after the outside calls \<open>evs\<close> (a library it calls panics: the transport of a
  client given with \<^verbatim>\<open>WithHTTPClient\<close>, the decoder). On the remote branch the panic leaves
  \<^verbatim>\<open>Do\<close> before line 74 stores anything, and \<^verbatim>\<open>sync.Once\<close> counts a function that panicked as
  run: later calls of \<^verbatim>\<open>Do\<close> return without calling it. On the local branch the panic leaves
  \<^verbatim>\<open>get\<close> before lines 94 and 98, so neither map is written. When the call does not run
  \<^verbatim>\<open>getRepositoryIndex\<close> at all it is the call \<open>get\<close> above.
\<close>
definition getPanicking ::
  "string \<Rightarrow> event list \<Rightarrow> 'idx env \<Rightarrow> string \<Rightarrow> keymap \<Rightarrow> string \<Rightarrow> indexOpts \<Rightarrow> 'idx state \<Rightarrow>
   ('idx option \<times> error option) outcome \<times> 'idx state" where
  "getPanicking v evs env u keys arch opts st =
     (if HasPrefix u ''https://'' then
        (if (case onces (cache st) u of Some d \<Rightarrow> d | None \<Rightarrow> False)
         then get env u keys arch opts st
         else (Panic v,
               st\<lparr>cache := (cache st)\<lparr>onces := (onces (cache st))(u \<mapsto> True)\<rparr>,
                  trace := trace st @ Compute u # evs @ [Panicked u]\<rparr>))
      else
        (case os_Stat env u of
           Inl e \<Rightarrow> get env u keys arch opts st
         | Inr mod' \<Rightarrow>
             if (case modtimes (cache st) u of None \<Rightarrow> True | Some before \<Rightarrow> After mod' before)
             then (Panic v, st\<lparr>trace := trace st @ Stat u # Compute u # evs @ [Panicked u]\<rparr>)
             else get env u keys arch opts st))"


subsection \<open>GetRepositoryIndexes\<close>

text \<open>\<^verbatim>\<open>IndexURL\<close>: \<^verbatim>\<open>fmt.Sprintf("%s/%s/%s", repo, arch, indexFilename)\<close>.\<close>
definition IndexURL :: "'idx env \<Rightarrow> string \<Rightarrow> string \<Rightarrow> string" where
  "IndexURL env repo arch = repo @ ''/'' @ arch @ ''/'' @ indexFilename env"

text \<open>
  Lines 131 to 143: the name and the URL of a repository line, or the error for a pinned
  line with fewer than two fields. \<^verbatim>\<open>parts[0][1:]\<close> drops one byte.
\<close>
definition parseRepo :: "string \<Rightarrow> error + (string \<times> string)" where
  "parseRepo repo =
     (if HasPrefix repo ''@'' then
        (let parts = Fields repo in
         if length parts < 2 then Inl (InvalidRepositoryLine repo)
         else Inr (drop 1 (parts ! 0), parts ! 1))
      else Inr ('''', repo))"

text \<open>
  Lines 129 to 161: the loop over the repositories; \<open>acc\<close> is \<^verbatim>\<open>indexes\<close>, the list built
  so far. An error returns the nil list.
\<close>
fun reposLoop ::
  "'idx env \<Rightarrow> keymap \<Rightarrow> string \<Rightarrow> indexOpts \<Rightarrow> 'idx NamedIndex list \<Rightarrow> string list \<Rightarrow>
   'idx state \<Rightarrow> ('idx NamedIndex list \<times> error option) outcome \<times> 'idx state" where
  "reposLoop env keys arch opts acc [] st = (Return (acc, None), st)"
| "reposLoop env keys arch opts acc (repo # repos) st =
     (case parseRepo repo of
        Inl e \<Rightarrow> (Return ([], Some e), st)
      | Inr (repoName, repoURL) \<Rightarrow>
          (let u = IndexURL env repoURL arch;
               repoBase = repoURL @ ''/'' @ arch
           in case get env u keys arch opts st of
                (Panic m, st') \<Rightarrow> (Panic m, st')
              | (Return (index, Some e), st') \<Rightarrow> (Return ([], Some e), st')
              | (Return (None, None), st') \<Rightarrow> reposLoop env keys arch opts acc repos st'
              | (Return (Some i, None), st') \<Rightarrow>
                  reposLoop env keys arch opts
                    (acc @ [\<lparr>ni_name = repoName, ni_uri = repoBase, ni_index = i\<rparr>]) repos st'))"

definition GetRepositoryIndexes ::
  "'idx env \<Rightarrow> string list \<Rightarrow> keymap \<Rightarrow> string \<Rightarrow> IndexOption list \<Rightarrow> 'idx state \<Rightarrow>
   ('idx NamedIndex list \<times> error option) outcome \<times> 'idx state" where
  "GetRepositoryIndexes env repos keys arch options st =
     reposLoop env keys arch
       (fold applyOption options \<lparr>ignoreSignatures = False, httpClient = None\<rparr>) [] repos st"

subsection \<open>The states of the process\<close>

text \<open>
  The cache starts as \<^verbatim>\<open>globalIndexCache\<close> and only \<^verbatim>\<open>get\<close> writes to it, in a world that may
  differ from call to call: these are the states a run can be in whose calls of \<^verbatim>\<open>get\<close>
  happen one after another, each returning or panicking in \<^verbatim>\<open>getRepositoryIndex\<close> (a caller
  that recovers the panic goes on with the same process).
\<close>
inductive reachable :: "'idx state \<Rightarrow> bool" where
  reachable_initial: "reachable initial"
| reachable_get: "reachable st \<Longrightarrow> reachable (snd (get env u keys arch opts st))"
| reachable_getPanicking:
    "reachable st \<Longrightarrow> reachable (snd (getPanicking v evs env u keys arch opts st))"

text \<open>
  What the writes of \<^verbatim>\<open>get\<close> keep true of the cache: a recorded modification time comes with
  a stored result, and a stored result for a local path comes with a modification time.
\<close>
definition cacheInv :: "'idx indexCache \<Rightarrow> bool" where
  "cacheInv c \<longleftrightarrow>
     (\<forall>u. modtimes c u \<noteq> None \<longrightarrow> indexes c u \<noteq> None) \<and>
     (\<forall>u. \<not> HasPrefix u ''https://'' \<longrightarrow> indexes c u \<noteq> None \<longrightarrow> modtimes c u \<noteq> None)"



subsection \<open>One repository line at a time\<close>







subsection \<open>An example world\<close>

text \<open>
  A world with one local index, \<^verbatim>\<open>/repo/x86_64/APKINDEX.tar.gz\<close>, whose modification time
  and whose \<^verbatim>\<open>Stat\<close> are given by \<open>stat\<close>. Every container has a signature record named for
  the key \<^verbatim>\<open>alice.rsa.pub\<close>, of which the archive reader takes 3 bytes; the signature is
  valid for the key \<^verbatim>\<open>bobkey\<close> alone. The theorems below are instantiated on it.
\<close>
definition exampleEnv :: "(string \<Rightarrow> oserr + time) \<Rightarrow> string env" where
  "exampleEnv stat =
     \<lparr>indexFilename = ''APKINDEX.tar.gz'',
      uri_New = (\<lambda>s. ''file://'' @ s),
      url_Parse = (\<lambda>s.
        if prefix ''https://'' s then Inr \<lparr>url_Scheme = ''https'', url_User = None, url_String = s\<rparr>
        else if prefix ''file://'' s then Inr \<lparr>url_Scheme = ''file'', url_User = None, url_String = s\<rparr>
        else Inl ''missing protocol scheme''),
      os_Stat = stat,
      os_ReadFile = (\<lambda>p.
        if p = ''/repo/x86_64/APKINDEX.tar.gz'' then Inr ''SIGPAYLOAD'' else Inl ErrNotExist),
      http_NewRequest = (\<lambda>s. None),
      RoundTrip = (\<lambda>c r. Inr \<lparr>StatusCode = 200, Body = Inr ''SIGPAYLOAD''\<rparr>),
      gzip_NewReader = (\<lambda>b. None),
      tar_Next = (\<lambda>b. Inr ''.SIGN.RSA.alice.rsa.pub''),
      tar_ReadAll = (\<lambda>b. Inr ''signature''),
      tar_Next2 = (\<lambda>b. None),
      consumed = (\<lambda>b. 3),
      HashData = (\<lambda>d. Inr (rev d)),
      RSAVerifySHA1Digest = (\<lambda>d s k.
        if k = ''bobkey'' \<and> d = ''DAOLYAP'' \<and> s = ''signature'' then None
        else Some ''crypto/rsa: verification error''),
      IndexFromArchive = (\<lambda>b. (Some b, None))\<rparr>"

definition statExample :: "time \<Rightarrow> string \<Rightarrow> oserr + time" where
  "statExample t p = (if p = ''/repo/x86_64/APKINDEX.tar.gz'' then Inr t else Inl ErrNotExist)"

definition statDenied :: "string \<Rightarrow> oserr + time" where
  "statDenied p = Inl ErrPermission"

definition exampleOpts :: indexOpts where
  "exampleOpts = \<lparr>ignoreSignatures = False, httpClient = None\<rparr>"

section \<open>Properties\<close>

subsection \<open>The fields of a pinned line\<close>



subsection \<open>The steps of signature verification\<close>

lemma rangeKeys_iff:
  "rangeKeys env indexDigest signature kvs \<longleftrightarrow>
     (\<exists>(k, keyData) \<in> set kvs. RSAVerifySHA1Digest env indexDigest signature keyData = None)"
  by (induction kvs) auto

lemma checkKeys_Some:
  "checkKeys env (Some kvs) keyName indexDigest signature =
     (if rangeKeys env indexDigest signature kvs then None else Some (NoKeyFound keyName))"
  by (auto simp: checkKeys_def Let_def split: option.splits)

lemma indexData_unread:
  "rd_s buf = b \<Longrightarrow> indexData b buf = unread buf"
  by (auto simp: indexData_def readBytes_def Len_def unread_def)

lemma validateSignature_read:
  assumes "gzip_NewReader env b = None"
    and "tar_Next env b = Inr signatureFile"
    and "signatureFileRegex signatureFile = [whole, keyName]"
    and "tar_ReadAll env b = Inr signature"
    and "tar_Next2 env b = None"
  shows "validateSignature env b keys =
     (case HashData env (unread (readN (NewReader b) (consumed env b))) of
        Inl e \<Rightarrow> Some (HashError e)
      | Inr indexDigest \<Rightarrow> checkKeys env keys keyName indexDigest signature)"
proof -
  have "indexData b (readN (NewReader b) (consumed env b)) =
        unread (readN (NewReader b) (consumed env b))"
    by (rule indexData_unread) (simp add: readN_def NewReader_def)
  with assms show ?thesis
    by (simp add: validateSignature_def Let_def split: sum.splits)
qed

lemma getRepositoryIndex_fetched:
  assumes "fetchBytes env u arch opts = (evs, Inr b)" and "\<not> ignoreSignatures opts"
  shows "getRepositoryIndex env u keys arch opts =
     (case validateSignature env b keys of
        Some e \<Rightarrow> (evs, (None, Some e))
      | None \<Rightarrow>
          (case IndexFromArchive env b of
             (index, Some e) \<Rightarrow> (evs, (None, Some (UnableToConvert u e)))
           | (index, None) \<Rightarrow> (evs, (index, None))))"
  using assms by (simp add: getRepositoryIndex_def)

subsection \<open>The writes of the cache\<close>

lemma cacheInv_initial: "cacheInv (cache initial)"
  by (simp add: cacheInv_def initial_def globalIndexCache_def)

lemma cache_computeAndStore:
  "cache (computeAndStore env u keys arch opts st) =
     (cache st)\<lparr>indexes := (indexes (cache st))
        (u \<mapsto> \<lparr>res_idx = fst (snd (getRepositoryIndex env u keys arch opts)),
               res_err = snd (snd (getRepositoryIndex env u keys arch opts))\<rparr>)\<rparr>"
  by (simp add: computeAndStore_def split: prod.splits)


lemma cacheInv_get:
  assumes "cacheInv (cache st)"
  shows "cacheInv (cache (snd (get env u keys arch opts st)))"
proof (cases "HasPrefix u ''https://''")
  case True
  with assms show ?thesis
    by (auto simp: get_def Let_def cacheInv_def cache_computeAndStore split: option.splits)
next
  case False
  with assms show ?thesis
    by (auto simp: get_def Let_def cacheInv_def cache_computeAndStore
             split: option.splits sum.splits)
qed


lemma get_local:
  assumes "\<not> HasPrefix u ''https://''"
  shows "get env u keys arch opts st =
     (case os_Stat env u of
        Inl e \<Rightarrow> (Return (None, None), st\<lparr>trace := trace st @ [Stat u]\<rparr>)
      | Inr m \<Rightarrow>
          if (case modtimes (cache st) u of None \<Rightarrow> True | Some before \<Rightarrow> before < m)
          then (Return (snd (getRepositoryIndex env u keys arch opts)),
                st\<lparr>cache := (cache st)
                     \<lparr>modtimes := (modtimes (cache st))(u \<mapsto> m),
                      indexes := (indexes (cache st))
                        (u \<mapsto> \<lparr>res_idx = fst (snd (getRepositoryIndex env u keys arch opts)),
                               res_err = snd (snd (getRepositoryIndex env u keys arch opts))\<rparr>)\<rparr>,
                   trace := trace st @ Stat u # Compute u #
                              fst (getRepositoryIndex env u keys arch opts)\<rparr>)
          else (loadResult u st, st\<lparr>trace := trace st @ [Stat u]\<rparr>))"
  using assms
  by (auto simp: get_def Let_def loadResult_def computeAndStore_def After_def
           split: option.splits sum.splits prod.splits)

lemma cacheInv_getPanicking:
  assumes "cacheInv (cache st)"
  shows "cacheInv (cache (snd (getPanicking v evs env u keys arch opts st)))"
proof -
  have "cacheInv ((cache st)\<lparr>onces := (onces (cache st))(u \<mapsto> True)\<rparr>)"
    using assms by (simp add: cacheInv_def)
  with assms cacheInv_get [OF assms, of env u keys arch opts] show ?thesis
    by (simp add: getPanicking_def split: sum.splits)
qed

lemma reachable_cacheInv: "reachable st \<Longrightarrow> cacheInv (cache st)"
  by (induction rule: reachable.induct)
     (simp_all add: cacheInv_initial cacheInv_get cacheInv_getPanicking)













subsection \<open>The loop and the verdicts\<close>









subsection \<open>The example world\<close>

lemma regex_alice:
  "signatureFileRegex ''.SIGN.RSA.alice.rsa.pub'' = [''.SIGN.RSA.alice.rsa.pub'', ''alice.rsa.pub'']"
  by (simp add: signatureFileRegex_def suffix_to_prefix)

lemma example_fetch_local:
  "fetchBytes (exampleEnv stat) ''/repo/x86_64/APKINDEX.tar.gz'' arch opts =
     ([ReadFile ''/repo/x86_64/APKINDEX.tar.gz''], Inr ''SIGPAYLOAD'')"
  by (simp add: fetchBytes_def exampleEnv_def HasPrefix_def)


lemma example_validate:
  "validateSignature (exampleEnv stat) ''SIGPAYLOAD'' keys =
     checkKeys (exampleEnv stat) keys ''alice.rsa.pub'' ''DAOLYAP'' ''signature''"
proof -
  let ?env = "exampleEnv stat"
  have "HashData ?env (unread (readN (NewReader ''SIGPAYLOAD'') (consumed ?env ''SIGPAYLOAD'')))
          = Inr ''DAOLYAP''"
    by (simp add: exampleEnv_def unread_def readN_def NewReader_def)
  moreover have "gzip_NewReader ?env ''SIGPAYLOAD'' = None"
    "tar_Next ?env ''SIGPAYLOAD'' = Inr ''.SIGN.RSA.alice.rsa.pub''"
    "tar_ReadAll ?env ''SIGPAYLOAD'' = Inr ''signature''"
    "tar_Next2 ?env ''SIGPAYLOAD'' = None"
    by (simp_all add: exampleEnv_def)
  ultimately show ?thesis
    using regex_alice by (simp add: validateSignature_read)
qed


subsection \<open>Missing keys\<close>

text \<open>
  Claim C1, as the code has it. When the bytes were fetched, verification is not bypassed
  and the signature record was read (its name matches the pattern, the digest was
  computed): with the nil key map the call fails with "no keys provided to verify
  signature"; with a map that has no entry, as with a map none of whose keys validates
  the signature, it fails with "no key found to verify signature for keyfile ...; tried
  all other keys as well".
\<close>
theorem missing_keys_errors:
  assumes "fetchBytes env u arch opts = (evs, Inr b)" and "\<not> ignoreSignatures opts"
    and "gzip_NewReader env b = None"
    and "tar_Next env b = Inr signatureFile"
    and "signatureFileRegex signatureFile = [whole, keyName]"
    and "tar_ReadAll env b = Inr signature"
    and "tar_Next2 env b = None"
    and "HashData env (unread (readN (NewReader b) (consumed env b))) = Inr indexDigest"
  shows "getRepositoryIndex env u None arch opts = (evs, (None, Some NoKeysProvided))
       \<and> getRepositoryIndex env u (Some []) arch opts = (evs, (None, Some (NoKeyFound keyName)))
       \<and> (\<forall>kvs. (\<forall>(k, keyData) \<in> set kvs.
                    RSAVerifySHA1Digest env indexDigest signature keyData \<noteq> None) \<longrightarrow>
             getRepositoryIndex env u (Some kvs) arch opts =
               (evs, (None, Some (NoKeyFound keyName))))"
proof -
  have v: "validateSignature env b keys = checkKeys env keys keyName indexDigest signature"
    for keys
    using assms(3-8) by (simp add: validateSignature_read)
  have a: "getRepositoryIndex env u None arch opts = (evs, (None, Some NoKeysProvided))"
    using assms(1,2) by (simp add: getRepositoryIndex_fetched v checkKeys_def)
  have c: "getRepositoryIndex env u (Some kvs) arch opts = (evs, (None, Some (NoKeyFound keyName)))"
    if "\<forall>(k, keyData) \<in> set kvs. RSAVerifySHA1Digest env indexDigest signature keyData \<noteq> None"
    for kvs
  proof -
    from that have "\<not> rangeKeys env indexDigest signature kvs"
      by (auto simp: rangeKeys_iff)
    with assms(1,2) show ?thesis
      by (simp add: getRepositoryIndex_fetched v checkKeys_Some)
  qed
  from c [of "[]"] have b: "getRepositoryIndex env u (Some []) arch opts =
      (evs, (None, Some (NoKeyFound keyName)))"
    by simp
  from a b c show ?thesis by blast
qed

theorem missing_keys_errors_witness:
  "getRepositoryIndex (exampleEnv (statExample 5)) ''/repo/x86_64/APKINDEX.tar.gz'' None ''x86_64''
     exampleOpts = ([ReadFile ''/repo/x86_64/APKINDEX.tar.gz''], (None, Some NoKeysProvided)) \<and>
   getRepositoryIndex (exampleEnv (statExample 5)) ''/repo/x86_64/APKINDEX.tar.gz''
     (Some [(''alice.rsa.pub'', ''alicekey'')]) ''x86_64'' exampleOpts =
     ([ReadFile ''/repo/x86_64/APKINDEX.tar.gz''], (None, Some (NoKeyFound ''alice.rsa.pub'')))"
proof -
  let ?env = "exampleEnv (statExample 5)"
  have h2: "\<not> ignoreSignatures exampleOpts" by (simp add: exampleOpts_def)
  have h3: "gzip_NewReader ?env ''SIGPAYLOAD'' = None" by (simp add: exampleEnv_def)
  have h4: "tar_Next ?env ''SIGPAYLOAD'' = Inr ''.SIGN.RSA.alice.rsa.pub''"
    by (simp add: exampleEnv_def)
  have h6: "tar_ReadAll ?env ''SIGPAYLOAD'' = Inr ''signature''" by (simp add: exampleEnv_def)
  have h7: "tar_Next2 ?env ''SIGPAYLOAD'' = None" by (simp add: exampleEnv_def)
  have h8: "HashData ?env (unread (readN (NewReader ''SIGPAYLOAD'') (consumed ?env ''SIGPAYLOAD'')))
              = Inr ''DAOLYAP''"
    by (simp add: exampleEnv_def unread_def readN_def NewReader_def)
  note t = missing_keys_errors [OF example_fetch_local h2 h3 h4 regex_alice h6 h7 h8]
  have n: "\<forall>(k, keyData) \<in> set [(''alice.rsa.pub'', ''alicekey'')].
             RSAVerifySHA1Digest ?env ''DAOLYAP'' ''signature'' keyData \<noteq> None"
    by (simp add: exampleEnv_def)
  from t n show ?thesis by blast
qed

text \<open>
  Claim C1 as the specification words it fails for the map with no entry: in the example
  world the call returns the "no key found" error, not "no keys provided".
\<close>
theorem empty_key_map_counterexample:
  "snd (getRepositoryIndex (exampleEnv (statExample 5)) ''/repo/x86_64/APKINDEX.tar.gz'' (Some [])
          ''x86_64'' exampleOpts) = (None, Some (NoKeyFound ''alice.rsa.pub'')) \<and>
   snd (getRepositoryIndex (exampleEnv (statExample 5)) ''/repo/x86_64/APKINDEX.tar.gz'' (Some [])
          ''x86_64'' exampleOpts) \<noteq> (None, Some NoKeysProvided)"
proof -
  have "\<not> ignoreSignatures exampleOpts" by (simp add: exampleOpts_def)
  then have "getRepositoryIndex (exampleEnv (statExample 5)) ''/repo/x86_64/APKINDEX.tar.gz''
               (Some []) ''x86_64'' exampleOpts =
             ([ReadFile ''/repo/x86_64/APKINDEX.tar.gz''], (None, Some (NoKeyFound ''alice.rsa.pub'')))"
    by (simp add: getRepositoryIndex_fetched [OF example_fetch_local] example_validate
          checkKeys_Some)
  then show ?thesis by simp
qed

subsection \<open>Revalidation of a local index\<close>

text \<open>
  Claim C2. For a local path whose \<^verbatim>\<open>Stat\<close> succeeds with modification time \<open>m\<close>, in a
  state a sequential run can reach: the path has a recorded modification time exactly
  when it has a stored result; \<^verbatim>\<open>getRepositoryIndex\<close> is run again exactly when there is no
  entry or \<open>m\<close> is strictly after the recorded time, and then its result is returned and
  stored and \<open>m\<close> recorded; otherwise the stored pair is returned, the cache is unchanged
  and the only outside call is the \<^verbatim>\<open>Stat\<close>.
\<close>
theorem local_revalidation:
  assumes "reachable st" and "\<not> HasPrefix u ''https://''" and "os_Stat env u = Inr m"
  shows "(modtimes (cache st) u = None \<longleftrightarrow> indexes (cache st) u = None)
       \<and> (if indexes (cache st) u = None \<or> (\<exists>before. modtimes (cache st) u = Some before \<and> before < m)
          then fst (get env u keys arch opts st) = Return (snd (getRepositoryIndex env u keys arch opts))
             \<and> trace (snd (get env u keys arch opts st)) =
                 trace st @ Stat u # Compute u # fst (getRepositoryIndex env u keys arch opts)
             \<and> indexes (cache (snd (get env u keys arch opts st))) =
                 (indexes (cache st))
                   (u \<mapsto> \<lparr>res_idx = fst (snd (getRepositoryIndex env u keys arch opts)),
                          res_err = snd (snd (getRepositoryIndex env u keys arch opts))\<rparr>)
             \<and> modtimes (cache (snd (get env u keys arch opts st))) = (modtimes (cache st))(u \<mapsto> m)
             \<and> onces (cache (snd (get env u keys arch opts st))) = onces (cache st)
          else (\<exists>stored. indexes (cache st) u = Some stored
             \<and> get env u keys arch opts st =
                 (Return (res_idx stored, res_err stored), st\<lparr>trace := trace st @ [Stat u]\<rparr>)))"
proof -
  have inv: "cacheInv (cache st)" using assms(1) by (rule reachable_cacheInv)
  have eq: "modtimes (cache st) u = None \<longleftrightarrow> indexes (cache st) u = None"
    using inv assms(2) by (auto simp: cacheInv_def)
  show ?thesis
  proof (cases "modtimes (cache st) u")
    case None
    with eq assms show ?thesis by (simp add: get_local)
  next
    case (Some before)
    with eq obtain stored where s: "indexes (cache st) u = Some stored" by auto
    show ?thesis
    proof (cases "before < m")
      case True
      with Some s assms show ?thesis by (simp add: get_local)
    next
      case False
      with Some s assms show ?thesis by (simp add: get_local loadResult_def)
    qed
  qed
qed

theorem local_revalidation_witness:
  "reachable (snd (get (exampleEnv (statExample 5)) ''/repo/x86_64/APKINDEX.tar.gz''
                     (Some [(''bob.rsa.pub'', ''bobkey'')]) ''x86_64'' exampleOpts initial)) \<and>
   \<not> HasPrefix ''/repo/x86_64/APKINDEX.tar.gz'' ''https://'' \<and>
   os_Stat (exampleEnv (statExample 5)) ''/repo/x86_64/APKINDEX.tar.gz'' = Inr 5 \<and>
   os_Stat (exampleEnv (statExample 6)) ''/repo/x86_64/APKINDEX.tar.gz'' = Inr 6 \<and>
   trace (snd (get (exampleEnv (statExample 5)) ''/repo/x86_64/APKINDEX.tar.gz'' None ''x86_64'' exampleOpts
          (snd (get (exampleEnv (statExample 5)) ''/repo/x86_64/APKINDEX.tar.gz''
                 (Some [(''bob.rsa.pub'', ''bobkey'')]) ''x86_64'' exampleOpts initial)))) =
     [Stat ''/repo/x86_64/APKINDEX.tar.gz'', Compute ''/repo/x86_64/APKINDEX.tar.gz'',
      ReadFile ''/repo/x86_64/APKINDEX.tar.gz'', Stat ''/repo/x86_64/APKINDEX.tar.gz''] \<and>
   fst (get (exampleEnv (statExample 5)) ''/repo/x86_64/APKINDEX.tar.gz'' None ''x86_64'' exampleOpts
          (snd (get (exampleEnv (statExample 5)) ''/repo/x86_64/APKINDEX.tar.gz''
                 (Some [(''bob.rsa.pub'', ''bobkey'')]) ''x86_64'' exampleOpts initial))) =
     Return (Some ''SIGPAYLOAD'', None) \<and>
   trace (snd (get (exampleEnv (statExample 6)) ''/repo/x86_64/APKINDEX.tar.gz'' None ''x86_64'' exampleOpts
          (snd (get (exampleEnv (statExample 5)) ''/repo/x86_64/APKINDEX.tar.gz''
                 (Some [(''bob.rsa.pub'', ''bobkey'')]) ''x86_64'' exampleOpts initial)))) =
     [Stat ''/repo/x86_64/APKINDEX.tar.gz'', Compute ''/repo/x86_64/APKINDEX.tar.gz'',
      ReadFile ''/repo/x86_64/APKINDEX.tar.gz'', Stat ''/repo/x86_64/APKINDEX.tar.gz'',
      Compute ''/repo/x86_64/APKINDEX.tar.gz'', ReadFile ''/repo/x86_64/APKINDEX.tar.gz''] \<and>
   fst (get (exampleEnv (statExample 6)) ''/repo/x86_64/APKINDEX.tar.gz'' None ''x86_64'' exampleOpts
          (snd (get (exampleEnv (statExample 5)) ''/repo/x86_64/APKINDEX.tar.gz''
                 (Some [(''bob.rsa.pub'', ''bobkey'')]) ''x86_64'' exampleOpts initial))) =
     Return (None, Some NoKeysProvided)"
proof -
  let ?u = "''/repo/x86_64/APKINDEX.tar.gz''"
  let ?st = "snd (get (exampleEnv (statExample 5)) ?u
                     (Some [(''bob.rsa.pub'', ''bobkey'')]) ''x86_64'' exampleOpts initial)"
  have h1: "reachable ?st" by (rule reachable_get [OF reachable_initial])
  have h2: "\<not> HasPrefix ?u ''https://''" by (simp add: HasPrefix_def)
  have h3: "os_Stat (exampleEnv (statExample 5)) ?u = Inr 5"
    by (simp add: exampleEnv_def statExample_def)
  have h4: "os_Stat (exampleEnv (statExample 6)) ?u = Inr 6"
    by (simp add: exampleEnv_def statExample_def)
  have g: "getRepositoryIndex (exampleEnv (statExample 5)) ?u (Some [(''bob.rsa.pub'', ''bobkey'')])
             ''x86_64'' exampleOpts = ([ReadFile ?u], (Some ''SIGPAYLOAD'', None))"
    by (simp add: getRepositoryIndex_def fetchBytes_def validateSignature_def checkKeys_def
          exampleEnv_def exampleOpts_def HasPrefix_def
          regex_alice indexData_def readBytes_def Len_def readN_def NewReader_def)
  have g6: "getRepositoryIndex (exampleEnv (statExample 6)) ?u None
             ''x86_64'' exampleOpts = ([ReadFile ?u], (None, Some NoKeysProvided))"
    by (simp add: getRepositoryIndex_def fetchBytes_def validateSignature_def checkKeys_def
          exampleEnv_def exampleOpts_def HasPrefix_def
          regex_alice indexData_def readBytes_def Len_def readN_def NewReader_def)
  have st: "?st = \<lparr>cache = \<lparr>onces = Map.empty, modtimes = [?u \<mapsto> 5],
                         indexes = [?u \<mapsto> \<lparr>res_idx = Some ''SIGPAYLOAD'', res_err = None\<rparr>]\<rparr>,
                  trace = [Stat ?u, Compute ?u, ReadFile ?u]\<rparr>"
    by (simp add: get_local [OF h2] h3 g initial_def globalIndexCache_def)
  note a = local_revalidation [OF h1 h2 h3, of None "''x86_64''" exampleOpts]
  note b = local_revalidation [OF h1 h2 h4, of None "''x86_64''" exampleOpts]
  have a': "get (exampleEnv (statExample 5)) ?u None ''x86_64'' exampleOpts ?st =
     (Return (Some ''SIGPAYLOAD'', None), ?st\<lparr>trace := trace ?st @ [Stat ?u]\<rparr>)"
    using a unfolding st by simp
  have b': "fst (get (exampleEnv (statExample 6)) ?u None ''x86_64'' exampleOpts ?st) =
              Return (None, Some NoKeysProvided)
          \<and> trace (snd (get (exampleEnv (statExample 6)) ?u None ''x86_64'' exampleOpts ?st)) =
              [Stat ?u, Compute ?u, ReadFile ?u, Stat ?u, Compute ?u, ReadFile ?u]"
    using b unfolding st by (simp add: g6)
  from h1 h2 h3 h4 a' b' show ?thesis by (simp add: st)
qed

subsection \<open>The authenticated payload\<close>

text \<open>
  Claim C3, as the code has it. When the signature record was read, the digest is computed
  over the bytes of the raw container that the reader under the gzip reader has not
  handed out yet: the suffix that starts at the offset equal to the number of bytes read
  so far, which is the total length minus the number of unread bytes, and whose length is
  the total length minus that offset.
\<close>
theorem payload_is_unread_suffix:
  assumes "gzip_NewReader env b = None"
    and "tar_Next env b = Inr signatureFile"
    and "signatureFileRegex signatureFile = [whole, keyName]"
    and "tar_ReadAll env b = Inr signature"
    and "tar_Next2 env b = None"
    and "buf = readN (NewReader b) (consumed env b)"
  shows "validateSignature env b keys =
           (case HashData env (drop (rd_i buf) b) of
              Inl e \<Rightarrow> Some (HashError e)
            | Inr indexDigest \<Rightarrow> checkKeys env keys keyName indexDigest signature)
       \<and> indexData b buf = drop (rd_i buf) b
       \<and> drop (rd_i buf) b = unread buf
       \<and> int (rd_i buf) = readBytes b buf
       \<and> rd_i buf = length b - Len buf
       \<and> rd_i buf \<le> length b
       \<and> length (indexData b buf) = length b - rd_i buf"
proof -
  have s: "rd_s buf = b" and i: "rd_i buf = min (consumed env b) (length b)"
    using assms(6) by (simp_all add: readN_def NewReader_def)
  have u: "unread buf = drop (rd_i buf) b" by (simp add: unread_def s)
  have d: "indexData b buf = unread buf" using s by (rule indexData_unread)
  have v: "validateSignature env b keys =
           (case HashData env (drop (rd_i buf) b) of
              Inl e \<Rightarrow> Some (HashError e)
            | Inr indexDigest \<Rightarrow> checkKeys env keys keyName indexDigest signature)"
    using validateSignature_read [OF assms(1-5), of keys] u by (simp add: assms(6))
  have l: "rd_i buf = length b - Len buf" "rd_i buf \<le> length b"
    using i by (auto simp: Len_def s)
  have r: "int (rd_i buf) = readBytes b buf"
    using i by (auto simp: readBytes_def Len_def s)
  from v d u l r show ?thesis by simp
qed

theorem payload_is_unread_suffix_witness:
  "rd_i (readN (NewReader ''SIGPAYLOAD'') (consumed (exampleEnv (statExample 5)) ''SIGPAYLOAD'')) = 3 \<and>
   indexData ''SIGPAYLOAD''
     (readN (NewReader ''SIGPAYLOAD'') (consumed (exampleEnv (statExample 5)) ''SIGPAYLOAD'')) = ''PAYLOAD'' \<and>
   validateSignature (exampleEnv (statExample 5)) ''SIGPAYLOAD'' None = Some NoKeysProvided"
proof -
  let ?env = "exampleEnv (statExample 5)"
  have h3: "gzip_NewReader ?env ''SIGPAYLOAD'' = None" by (simp add: exampleEnv_def)
  have h4: "tar_Next ?env ''SIGPAYLOAD'' = Inr ''.SIGN.RSA.alice.rsa.pub''"
    by (simp add: exampleEnv_def)
  have h6: "tar_ReadAll ?env ''SIGPAYLOAD'' = Inr ''signature''" by (simp add: exampleEnv_def)
  have h7: "tar_Next2 ?env ''SIGPAYLOAD'' = None" by (simp add: exampleEnv_def)
  have i: "rd_i (readN (NewReader ''SIGPAYLOAD'') (consumed ?env ''SIGPAYLOAD'')) = 3"
    by (simp add: exampleEnv_def readN_def NewReader_def)
  note t = payload_is_unread_suffix [OF h3 h4 regex_alice h6 h7 refl, of None]
  from t i show ?thesis
    by (simp add: exampleEnv_def checkKeys_def)
qed

text \<open>
  Claim C3 as the specification words it puts the start of the payload at the total
  length minus the number of bytes consumed. For a container of 10 bytes of which 3 were
  consumed the payload is the last 7 bytes; the suffix from offset \<open>10 - 3\<close> is the last 3.
\<close>
theorem payload_offset_counterexample:
  "rd_i (readN (NewReader ''SIGPAYLOAD'') 3) = 3 \<and>
   indexData ''SIGPAYLOAD'' (readN (NewReader ''SIGPAYLOAD'') 3) = ''PAYLOAD'' \<and>
   indexData ''SIGPAYLOAD'' (readN (NewReader ''SIGPAYLOAD'') 3) \<noteq>
     drop (length ''SIGPAYLOAD'' - rd_i (readN (NewReader ''SIGPAYLOAD'') 3)) ''SIGPAYLOAD''"
  by (simp add: indexData_def readBytes_def Len_def readN_def NewReader_def)

subsection \<open>A trusted key under another name\<close>

text \<open>
  Claim C4. When the signature record was read, verification succeeds exactly when the
  signature is valid for the key of some entry of the key map, whatever name that entry
  has and whatever key name the signature file carries; otherwise it fails with the "no
  key found" error for the key name of the file. So a signature valid for the key of some
  entry is accepted under any name, and the call goes on to decode the bytes.
\<close>
theorem trusted_key_under_any_name:
  assumes "gzip_NewReader env b = None"
    and "tar_Next env b = Inr signatureFile"
    and "signatureFileRegex signatureFile = [whole, keyName]"
    and "tar_ReadAll env b = Inr signature"
    and "tar_Next2 env b = None"
    and "HashData env (unread (readN (NewReader b) (consumed env b))) = Inr indexDigest"
  shows "validateSignature env b (Some kvs) =
           (if \<exists>(k, keyData) \<in> set kvs.
                 RSAVerifySHA1Digest env indexDigest signature keyData = None
            then None else Some (NoKeyFound keyName))
       \<and> (fetchBytes env u arch opts = (evs, Inr b) \<and> \<not> ignoreSignatures opts \<longrightarrow>
            getRepositoryIndex env u (Some kvs) arch opts =
              (if \<exists>(k, keyData) \<in> set kvs.
                    RSAVerifySHA1Digest env indexDigest signature keyData = None
               then (case IndexFromArchive env b of
                       (index, Some e) \<Rightarrow> (evs, (None, Some (UnableToConvert u e)))
                     | (index, None) \<Rightarrow> (evs, (index, None)))
               else (evs, (None, Some (NoKeyFound keyName)))))
       \<and> (\<forall>k keyData. (k, keyData) \<in> set kvs \<and>
              RSAVerifySHA1Digest env indexDigest signature keyData = None \<longrightarrow>
            validateSignature env b (Some kvs) = None
            \<and> (fetchBytes env u arch opts = (evs, Inr b) \<and> \<not> ignoreSignatures opts \<longrightarrow>
                 getRepositoryIndex env u (Some kvs) arch opts =
                   (case IndexFromArchive env b of
                      (index, Some e) \<Rightarrow> (evs, (None, Some (UnableToConvert u e)))
                    | (index, None) \<Rightarrow> (evs, (index, None)))))"
proof -
  let ?some = "\<exists>(k, keyData) \<in> set kvs. RSAVerifySHA1Digest env indexDigest signature keyData = None"
  have v: "validateSignature env b (Some kvs) = (if ?some then None else Some (NoKeyFound keyName))"
    using assms by (simp add: validateSignature_read checkKeys_Some rangeKeys_iff)
  have g: "getRepositoryIndex env u (Some kvs) arch opts =
              (if ?some
               then (case IndexFromArchive env b of
                       (index, Some e) \<Rightarrow> (evs, (None, Some (UnableToConvert u e)))
                     | (index, None) \<Rightarrow> (evs, (index, None)))
               else (evs, (None, Some (NoKeyFound keyName))))"
    if "fetchBytes env u arch opts = (evs, Inr b)" "\<not> ignoreSignatures opts"
    using that by (simp add: getRepositoryIndex_fetched v)
  have s: ?some if "(k, keyData) \<in> set kvs"
    "RSAVerifySHA1Digest env indexDigest signature keyData = None" for k keyData
    using that by auto
  from v g s show ?thesis by (intro conjI allI impI) (simp_all, force+)
qed

theorem trusted_key_under_any_name_witness:
  "(''bob.rsa.pub'', ''bobkey'') \<in> set [(''alice.rsa.pub'', ''alicekey''), (''bob.rsa.pub'', ''bobkey'')] \<and>
   signatureFileRegex ''.SIGN.RSA.alice.rsa.pub'' = [''.SIGN.RSA.alice.rsa.pub'', ''alice.rsa.pub''] \<and>
   RSAVerifySHA1Digest (exampleEnv (statExample 5)) ''DAOLYAP'' ''signature'' ''alicekey'' \<noteq> None \<and>
   validateSignature (exampleEnv (statExample 5)) ''SIGPAYLOAD''
     (Some [(''alice.rsa.pub'', ''alicekey''), (''bob.rsa.pub'', ''bobkey'')]) = None \<and>
   getRepositoryIndex (exampleEnv (statExample 5)) ''/repo/x86_64/APKINDEX.tar.gz''
     (Some [(''alice.rsa.pub'', ''alicekey''), (''bob.rsa.pub'', ''bobkey'')]) ''x86_64'' exampleOpts =
     ([ReadFile ''/repo/x86_64/APKINDEX.tar.gz''], (Some ''SIGPAYLOAD'', None)) \<and>
   validateSignature (exampleEnv (statExample 5)) ''SIGPAYLOAD''
     (Some [(''alice.rsa.pub'', ''alicekey'')]) = Some (NoKeyFound ''alice.rsa.pub'')"
proof -
  let ?env = "exampleEnv (statExample 5)"
  let ?u = "''/repo/x86_64/APKINDEX.tar.gz''"
  have h2: "\<not> ignoreSignatures exampleOpts" by (simp add: exampleOpts_def)
  have h3: "gzip_NewReader ?env ''SIGPAYLOAD'' = None" by (simp add: exampleEnv_def)
  have h4: "tar_Next ?env ''SIGPAYLOAD'' = Inr ''.SIGN.RSA.alice.rsa.pub''"
    by (simp add: exampleEnv_def)
  have h6: "tar_ReadAll ?env ''SIGPAYLOAD'' = Inr ''signature''" by (simp add: exampleEnv_def)
  have h7: "tar_Next2 ?env ''SIGPAYLOAD'' = None" by (simp add: exampleEnv_def)
  have h8: "HashData ?env (unread (readN (NewReader ''SIGPAYLOAD'') (consumed ?env ''SIGPAYLOAD'')))
              = Inr ''DAOLYAP''"
    by (simp add: exampleEnv_def unread_def readN_def NewReader_def)
  have h9: "(''bob.rsa.pub'', ''bobkey'') \<in> set [(''alice.rsa.pub'', ''alicekey''), (''bob.rsa.pub'', ''bobkey'')]"
    by simp
  have bob: "RSAVerifySHA1Digest ?env ''DAOLYAP'' ''signature'' ''bobkey'' = None"
    by (simp add: exampleEnv_def)
  have alice: "RSAVerifySHA1Digest ?env ''DAOLYAP'' ''signature'' ''alicekey'' \<noteq> None"
    by (simp add: exampleEnv_def)
  have d: "IndexFromArchive ?env ''SIGPAYLOAD'' = (Some ''SIGPAYLOAD'', None)"
    by (simp add: exampleEnv_def)
  note t = trusted_key_under_any_name [OF h3 h4 regex_alice h6 h7 h8,
             of "[(''alice.rsa.pub'', ''alicekey''), (''bob.rsa.pub'', ''bobkey'')]" ?u
                "''x86_64''" exampleOpts "[ReadFile ?u]"]
  note r = trusted_key_under_any_name [OF h3 h4 regex_alice h6 h7 h8,
             of "[(''alice.rsa.pub'', ''alicekey'')]" ?u "''x86_64''" exampleOpts "[ReadFile ?u]"]
  from t [THEN conjunct2, THEN conjunct2, rule_format, of "''bob.rsa.pub''" "''bobkey''"] h9 bob
  have a: "validateSignature ?env ''SIGPAYLOAD''
             (Some [(''alice.rsa.pub'', ''alicekey''), (''bob.rsa.pub'', ''bobkey'')]) = None"
    and g: "fetchBytes ?env ?u ''x86_64'' exampleOpts = ([ReadFile ?u], Inr ''SIGPAYLOAD'') \<and>
            \<not> ignoreSignatures exampleOpts \<longrightarrow>
            getRepositoryIndex ?env ?u
              (Some [(''alice.rsa.pub'', ''alicekey''), (''bob.rsa.pub'', ''bobkey'')]) ''x86_64'' exampleOpts =
            (case IndexFromArchive ?env ''SIGPAYLOAD'' of
               (index, Some e) \<Rightarrow> ([ReadFile ?u], (None, Some (UnableToConvert ?u e)))
             | (index, None) \<Rightarrow> ([ReadFile ?u], (index, None)))"
    by blast+
  from g h2 have g': "getRepositoryIndex ?env ?u
              (Some [(''alice.rsa.pub'', ''alicekey''), (''bob.rsa.pub'', ''bobkey'')]) ''x86_64'' exampleOpts =
            ([ReadFile ?u], (Some ''SIGPAYLOAD'', None))"
    by (simp add: example_fetch_local d)
  from r [THEN conjunct1] alice
  have n: "validateSignature ?env ''SIGPAYLOAD'' (Some [(''alice.rsa.pub'', ''alicekey'')]) =
             Some (NoKeyFound ''alice.rsa.pub'')"
    by simp
  from h9 alice a g' n show ?thesis by (simp add: regex_alice)
qed

subsection \<open>The batch\<close>



subsection \<open>Pinned lines\<close>

text \<open>
  Claim C7. A repository line that starts with the pin marker \<^verbatim>\<open>@\<close> and has fewer than two
  white-space separated fields makes \<^verbatim>\<open>GetRepositoryIndexes\<close> return the error "invalid
  repository line" for that line, with the nil list, and the state is the one the loop
  reached the line in: the cache is unchanged and no call to the file system or the
  network was made for the line.
\<close>
theorem pinned_line_too_short:
  assumes "HasPrefix repo ''@''" and "length (Fields repo) < 2"
  shows "reposLoop env keys arch opts acc (repo # repos) st =
           (Return ([], Some (InvalidRepositoryLine repo)), st)
       \<and> GetRepositoryIndexes env (repo # repos) keys arch options st =
           (Return ([], Some (InvalidRepositoryLine repo)), st)"
  using assms by (simp add: GetRepositoryIndexes_def parseRepo_def)

theorem pinned_line_too_short_witness:
  "HasPrefix ''@corp'' ''@'' \<and> length (Fields ''@corp'') < 2 \<and>
   GetRepositoryIndexes (exampleEnv (statExample 5)) [''@corp'', ''/repo''] None ''x86_64'' [] initial =
     (Return ([], Some (InvalidRepositoryLine ''@corp'')), initial)"
proof -
  have h1: "HasPrefix ''@corp'' ''@''" by (simp add: HasPrefix_def)
  have h2: "length (Fields ''@corp'') < 2" by (simp add: Fields_def asciiSpace_def)
  show ?thesis
    using h1 h2 pinned_line_too_short [OF h1 h2, of "exampleEnv (statExample 5)" None "''x86_64''" exampleOpts "[]" "[''/repo'']" initial "[]"]
    by simp
qed

subsection \<open>The final lookup\<close>




subsection \<open>A failed stat\<close>

text \<open>
  Claim C9. For a local path (one that does not start with \<^verbatim>\<open>https://\<close>), when \<^verbatim>\<open>os.Stat\<close>
  fails, with whatever error, \<^verbatim>\<open>get\<close> returns \<^verbatim>\<open>(nil, nil)\<close> at once: the cache is unchanged,
  nothing is computed, and no error comes back. The loop of \<^verbatim>\<open>GetRepositoryIndexes\<close> then
  goes on to the next line with the list it had.
\<close>
theorem stat_failure_skips:
  assumes "\<not> HasPrefix u ''https://''" and "os_Stat env u = Inl e"
  shows "get env u keys arch opts st = (Return (None, None), st\<lparr>trace := trace st @ [Stat u]\<rparr>)
       \<and> (\<forall>repo repoName repoURL.
             parseRepo repo = Inr (repoName, repoURL) \<and> IndexURL env repoURL arch = u \<longrightarrow>
             reposLoop env keys arch opts acc (repo # repos) st =
             reposLoop env keys arch opts acc repos (st\<lparr>trace := trace st @ [Stat u]\<rparr>))"
proof -
  have g: "get env u keys arch opts st = (Return (None, None), st\<lparr>trace := trace st @ [Stat u]\<rparr>)"
    using assms by (simp add: get_local)
  then show ?thesis by (simp add: Let_def)
qed

theorem stat_failure_skips_witness:
  "\<not> HasPrefix ''/repo/x86_64/APKINDEX.tar.gz'' ''https://'' \<and>
   os_Stat (exampleEnv statDenied) ''/repo/x86_64/APKINDEX.tar.gz'' = Inl ErrPermission \<and>
   get (exampleEnv statDenied) ''/repo/x86_64/APKINDEX.tar.gz'' None ''x86_64'' exampleOpts initial =
     (Return (None, None), initial\<lparr>trace := [Stat ''/repo/x86_64/APKINDEX.tar.gz'']\<rparr>) \<and>
   reposLoop (exampleEnv statDenied) None ''x86_64'' exampleOpts [] [''/repo''] initial =
     (Return ([], None), initial\<lparr>trace := [Stat ''/repo/x86_64/APKINDEX.tar.gz'']\<rparr>)"
proof -
  have h1: "\<not> HasPrefix ''/repo/x86_64/APKINDEX.tar.gz'' ''https://''"
    by (simp add: HasPrefix_def)
  have h2: "os_Stat (exampleEnv statDenied) ''/repo/x86_64/APKINDEX.tar.gz'' = Inl ErrPermission"
    by (simp add: exampleEnv_def statDenied_def)
  have p: "parseRepo ''/repo'' = Inr ('''', ''/repo'')"
    by (simp add: parseRepo_def HasPrefix_def)
  have i: "IndexURL (exampleEnv statDenied) ''/repo'' ''x86_64'' = ''/repo/x86_64/APKINDEX.tar.gz''"
    by (simp add: IndexURL_def exampleEnv_def)
  note t = stat_failure_skips [OF h1 h2, of None "''x86_64''" exampleOpts initial "[]" "[]"]
  have "reposLoop (exampleEnv statDenied) None ''x86_64'' exampleOpts [] [''/repo''] initial =
     (Return ([], None), initial\<lparr>trace := [Stat ''/repo/x86_64/APKINDEX.tar.gz'']\<rparr>)"
    using t [THEN conjunct2, rule_format, of "''/repo''" "''''" "''/repo''"] p i
    by (simp add: initial_def del: reposLoop.simps(2))
  with t h1 h2 show ?thesis by (simp add: initial_def)
qed

subsection \<open>Further fields of a pinned line\<close>



end
